theory Spec2Isabelle
  imports Complex_Main "HOL-Library.Monad_Syntax"
begin

section \<open>JavaScript numbers\<close>

text \<open>
  The engine computes with JavaScript numbers. The geometry code relies on the special
  values (a point with a \<open>NaN\<close> coordinate marks an element that is "not real", a
  \<open>NaN\<close> entry breaks a curve into strokes), so the model keeps them: a number is a
  finite real, one of the two infinities, or \<open>NaN\<close>. The sign of zero is not kept: a
  zero is \<open>+0\<close>.

  There are two sets of operations. Those of this subsection follow IEEE 754 on the
  special values and are exact on finite values; the positions of a line and of the
  grid elements are computed with them, the claims about them being identities of real
  numbers that the code meets within its floating tolerance. Those of the subsection
  on rounding round every finite result to binary64 and overflow to an infinity; they
  are used where the outcome of the code turns on rounding or on overflow: the
  \<open>NaN\<close> test of \<open>updateRenderer\<close>, the rescaling of \<open>forceSquare\<close> and the
  angle of the regular polygon.
\<close>

datatype jsnum = Fin real | PInf | NInf | NaN

fun js_isNaN :: "jsnum \<Rightarrow> bool" where
  "js_isNaN NaN = True"
| "js_isNaN _ = False"

fun js_isFinite :: "jsnum \<Rightarrow> bool" where
  "js_isFinite (Fin _) = True"
| "js_isFinite _ = False"

fun js_neg :: "jsnum \<Rightarrow> jsnum" where
  "js_neg (Fin a) = Fin (- a)"
| "js_neg PInf = NInf"
| "js_neg NInf = PInf"
| "js_neg NaN = NaN"

fun js_add :: "jsnum \<Rightarrow> jsnum \<Rightarrow> jsnum" where
  "js_add NaN _ = NaN"
| "js_add _ NaN = NaN"
| "js_add (Fin a) (Fin b) = Fin (a + b)"
| "js_add PInf NInf = NaN"
| "js_add NInf PInf = NaN"
| "js_add PInf _ = PInf"
| "js_add _ PInf = PInf"
| "js_add NInf _ = NInf"
| "js_add _ NInf = NInf"

definition js_sub :: "jsnum \<Rightarrow> jsnum \<Rightarrow> jsnum" where
  "js_sub a b = js_add a (js_neg b)"

fun js_mul :: "jsnum \<Rightarrow> jsnum \<Rightarrow> jsnum" where
  "js_mul NaN _ = NaN"
| "js_mul _ NaN = NaN"
| "js_mul (Fin a) (Fin b) = Fin (a * b)"
| "js_mul (Fin a) PInf = (if a = 0 then NaN else if 0 < a then PInf else NInf)"
| "js_mul (Fin a) NInf = (if a = 0 then NaN else if 0 < a then NInf else PInf)"
| "js_mul PInf (Fin b) = (if b = 0 then NaN else if 0 < b then PInf else NInf)"
| "js_mul NInf (Fin b) = (if b = 0 then NaN else if 0 < b then NInf else PInf)"
| "js_mul PInf PInf = PInf"
| "js_mul PInf NInf = NInf"
| "js_mul NInf PInf = NInf"
| "js_mul NInf NInf = PInf"

fun js_div :: "jsnum \<Rightarrow> jsnum \<Rightarrow> jsnum" where
  "js_div NaN _ = NaN"
| "js_div _ NaN = NaN"
| "js_div (Fin a) (Fin b) =
     (if b = 0 then (if a = 0 then NaN else if 0 < a then PInf else NInf)
      else Fin (a / b))"
| "js_div (Fin a) PInf = Fin 0"
| "js_div (Fin a) NInf = Fin 0"
| "js_div PInf (Fin b) = (if 0 \<le> b then PInf else NInf)"
| "js_div NInf (Fin b) = (if 0 \<le> b then NInf else PInf)"
| "js_div PInf PInf = NaN"
| "js_div PInf NInf = NaN"
| "js_div NInf PInf = NaN"
| "js_div NInf NInf = NaN"

fun js_abs :: "jsnum \<Rightarrow> jsnum" where
  "js_abs (Fin a) = Fin \<bar>a\<bar>"
| "js_abs PInf = PInf"
| "js_abs NInf = PInf"
| "js_abs NaN = NaN"

fun js_lt :: "jsnum \<Rightarrow> jsnum \<Rightarrow> bool" where
  "js_lt NaN _ = False"
| "js_lt _ NaN = False"
| "js_lt (Fin a) (Fin b) = (a < b)"
| "js_lt NInf NInf = False"
| "js_lt NInf _ = True"
| "js_lt _ NInf = False"
| "js_lt PInf _ = False"
| "js_lt _ PInf = True"

definition js_le :: "jsnum \<Rightarrow> jsnum \<Rightarrow> bool" where
  "js_le a b = (\<not> js_isNaN a \<and> \<not> js_isNaN b \<and> (a = b \<or> js_lt a b))"

definition js_gt :: "jsnum \<Rightarrow> jsnum \<Rightarrow> bool" where
  "js_gt a b = js_lt b a"

definition js_ge :: "jsnum \<Rightarrow> jsnum \<Rightarrow> bool" where
  "js_ge a b = js_le b a"

fun js_sqrt :: "jsnum \<Rightarrow> jsnum" where
  "js_sqrt (Fin a) = (if a < 0 then NaN else Fin (sqrt a))"
| "js_sqrt PInf = PInf"
| "js_sqrt NInf = NaN"
| "js_sqrt NaN = NaN"

text \<open>\<open>Math.round\<close>: the nearest integer, a tie going up.\<close>

fun js_round :: "jsnum \<Rightarrow> jsnum" where
  "js_round (Fin a) = Fin (of_int \<lfloor>a + 1 / 2\<rfloor>)"
| "js_round v = v"

text \<open>Reading \<open>a[i]\<close>: an index outside the array gives \<open>undefined\<close>, which every
  arithmetic operation and comparison of the code treats as \<open>NaN\<close>.\<close>

definition js_nth :: "jsnum list \<Rightarrow> nat \<Rightarrow> jsnum" where
  "js_nth a i = (if i < length a then a ! i else NaN)"

subsection \<open>Rounding\<close>

text \<open>
  A finite JavaScript number is a binary64 value: an integer significand below
  \<open>2\<^sup>5\<^sup>3\<close> times a power of two whose exponent runs from \<open>-1074\<close> to \<open>971\<close>.
  \<open>normUp\<close> and \<open>normDown\<close> bring a positive real to the form \<open>m * 2\<^sup>e\<close> with
  \<open>2\<^sup>5\<^sup>2 \<le> m < 2\<^sup>5\<^sup>3\<close>, or with \<open>e = -1074\<close> in the range of the subnormal
  numbers.
\<close>

function normUp :: "real \<Rightarrow> int \<Rightarrow> real \<times> int" where
  "normUp m e = (if 2 ^ 53 \<le> m then normUp (m / 2) (e + 1) else (m, e))"
  by pat_completeness auto
termination
proof (relation "measure (\<lambda>(m, e). nat \<lceil>m\<rceil>)")
  show "wf (measure (\<lambda>(m, e). nat \<lceil>m\<rceil>))" by simp
next
  fix m :: real and e :: int
  assume m: "2 ^ 53 \<le> m"
  hence "m / 2 + 1 \<le> m" by simp
  hence "\<lceil>m / 2\<rceil> < \<lceil>m\<rceil>" by linarith
  moreover have "0 < \<lceil>m\<rceil>" using m by (simp add: ceiling_less_iff)
  ultimately show "((m / 2, e + 1), (m, e)) \<in> measure (\<lambda>(m, e). nat \<lceil>m\<rceil>)"
    by simp
qed

function normDown :: "real \<Rightarrow> int \<Rightarrow> real \<times> int" where
  "normDown m e = (if m < 2 ^ 52 \<and> - 1074 < e then normDown (m * 2) (e - 1) else (m, e))"
  by pat_completeness auto
termination
  by (relation "measure (\<lambda>(m, e). nat (e + 1074))") auto

declare normUp.simps [simp del] normDown.simps [simp del]

definition normal :: "real \<Rightarrow> real \<times> int" where
  "normal a = (case normUp a 0 of (m, e) \<Rightarrow> normDown m e)"

text \<open>The nearest integer, a tie going to the even one.\<close>

definition roundHalfEven :: "real \<Rightarrow> int" where
  "roundHalfEven m =
     (let f = \<lfloor>m\<rfloor>; d = m - of_int f
      in if d < 1 / 2 then f else if 1 / 2 < d then f + 1 else if even f then f else f + 1)"

definition pow2 :: "int \<Rightarrow> real" where
  "pow2 e = (if 0 \<le> e then 2 ^ nat e else 1 / 2 ^ nat (- e))"

fun compose :: "real \<times> int \<Rightarrow> real" where
  "compose (m, e) = of_int (roundHalfEven m) * pow2 e"

text \<open>The number with a given sign and rounded magnitude: from \<open>2\<^sup>1\<^sup>0\<^sup>2\<^sup>4\<close> on it is an
  infinity.\<close>

definition fromMagnitude :: "bool \<Rightarrow> real \<Rightarrow> jsnum" where
  "fromMagnitude pos r =
     (if 2 ^ 1024 \<le> r then (if pos then PInf else NInf)
      else Fin (if pos then r else - r))"

definition rnd :: "real \<Rightarrow> jsnum" where
  "rnd x = (if x = 0 then Fin 0 else fromMagnitude (0 < x) (compose (normal \<bar>x\<bar>)))"

text \<open>The operations \<open>+\<close>, \<open>*\<close> and \<open>/\<close> of the engine on two numbers: the exact
  result, rounded.\<close>

fun fl_add :: "jsnum \<Rightarrow> jsnum \<Rightarrow> jsnum" where
  "fl_add (Fin a) (Fin b) = rnd (a + b)"
| "fl_add a b = js_add a b"

fun fl_mul :: "jsnum \<Rightarrow> jsnum \<Rightarrow> jsnum" where
  "fl_mul (Fin a) (Fin b) = rnd (a * b)"
| "fl_mul a b = js_mul a b"

fun fl_div :: "jsnum \<Rightarrow> jsnum \<Rightarrow> jsnum" where
  "fl_div (Fin a) (Fin b) = (if b = 0 then js_div (Fin a) (Fin b) else rnd (a / b))"
| "fl_div a b = js_div a b"

text \<open>\<open>Math.PI\<close>, the binary64 value next to \<open>\<pi>\<close>.\<close>

definition Math_PI :: real where
  "Math_PI = 884279719003555 / 2 ^ 48"

section \<open>Board, coordinates and lines\<close>

text \<open>
  A \<open>JXG.Coords\<close> object holds a position as \<open>usrCoords = [1, x, y]\<close> and as
  \<open>scrCoords = [1, sx, sy]\<close>. The board supplies the viewport (\<open>unitX\<close>,
  \<open>unitY\<close>, \<open>zoomX\<close>, \<open>zoomY\<close>, the screen position of the origin), the bounding
  box and the global tolerance \<open>JXG.Math.eps\<close>, whose value is not part of the files
  at hand and is therefore a field of the board.
\<close>

record coords =
  usrCoords :: "jsnum list"
  scrCoords :: "jsnum list"

record board =
  unitX :: jsnum
  unitY :: jsnum
  zoomX :: jsnum
  zoomY :: jsnum
  origin :: coords
  boundingBox :: "jsnum list"
  Math_eps :: jsnum

text \<open>
  The fields of \<open>JXG.Line\<close> that the functions below read or write. \<open>hp_r\<close> is
  \<open>this.r\<close>, the tolerance of \<open>hasPoint\<close> (an integer number of pixels);
  \<open>straightFirst\<close>, \<open>straightLast\<close> and \<open>visible\<close> are the entries of
  \<open>visProp\<close>.
\<close>

record line =
  point1 :: coords
  point2 :: coords
  stdform :: "jsnum list"
  hp_r :: int
  straightFirst :: bool
  straightLast :: bool
  visible :: bool
  needsUpdate :: bool
  isReal :: bool

subsection \<open>updateRenderer\<close>

text \<open>The calls a line makes to the rendering backend, in the order they are issued.\<close>

datatype rcall = Show | Hide | UpdateLine

text \<open>The sum whose \<open>isNaN\<close> the function tests: the four coordinates are added
  from left to right, each addition rounding and, beyond the largest number,
  overflowing to an infinity.\<close>

definition coordSum :: "line \<Rightarrow> jsnum" where
  "coordSum L =
     fl_add (fl_add (fl_add (js_nth (usrCoords (point1 L)) 1) (js_nth (usrCoords (point1 L)) 2))
                    (js_nth (usrCoords (point2 L)) 1))
            (js_nth (usrCoords (point2 L)) 2)"

definition updateRenderer :: "line \<Rightarrow> line \<times> rcall list" where
  "updateRenderer L =
     (if needsUpdate L \<and> visible L then
        (let wasReal = isReal L;
             L1 = L\<lparr>isReal := (if js_isNaN (coordSum L) then False else True)\<rparr>;
             calls =
               (if isReal L1
                then (if wasReal \<noteq> isReal L1 then [Show] else []) @ [UpdateLine]
                else (if wasReal \<noteq> isReal L1 then [Hide] else []))
         in (L1\<lparr>needsUpdate := False\<rparr>, calls))
      else (L, []))"

text \<open>The four endpoint coordinates a line is drawn from.\<close>

definition endpointCoords :: "line \<Rightarrow> jsnum list" where
  "endpointCoords L =
     [js_nth (usrCoords (point1 L)) 1, js_nth (usrCoords (point1 L)) 2,
      js_nth (usrCoords (point2 L)) 1, js_nth (usrCoords (point2 L)) 2]"

subsection \<open>Helpers of the board that the line code calls\<close>


text \<open>
  Modelled from the spec: \<open>new JXG.Coords(JXG.COORDS_BY_SCREEN, [x, y], board)\<close>; the
  class \<open>JXG.Coords\<close> is not among the files. The screen representation is
  \<open>[1, x, y]\<close>, and the user representation is the inverse of
  \<open>screen = origin + [x * unitX * zoomX, - y * unitY * zoomY]\<close>.
\<close>

definition coordsByScreen :: "board \<Rightarrow> jsnum \<Rightarrow> jsnum \<Rightarrow> coords" where
  "coordsByScreen B x y =
     \<lparr>usrCoords =
        [Fin 1,
         js_div (js_sub x (js_nth (scrCoords (origin B)) 1)) (js_mul (unitX B) (zoomX B)),
         js_div (js_sub (js_nth (scrCoords (origin B)) 2) y) (js_mul (unitY B) (zoomY B))],
      scrCoords = [Fin 1, x, y]\<rparr>"

text \<open>
  Modelled from the spec: \<open>Coords.distance(JXG.COORDS_BY_SCREEN, other)\<close>, the
  Euclidean distance of the two positions in the screen representation.
\<close>

definition distanceScr :: "coords \<Rightarrow> coords \<Rightarrow> jsnum" where
  "distanceScr p q =
     (let dx = js_sub (js_nth (scrCoords p) 1) (js_nth (scrCoords q) 1);
          dy = js_sub (js_nth (scrCoords p) 2) (js_nth (scrCoords q) 2)
      in js_sqrt (js_add (js_mul dx dx) (js_mul dy dy)))"

text \<open>
  Modelled from the spec: \<open>board.algebra.innerProduct(a, b, n)\<close>, the sum of the
  products of the first \<open>n\<close> entries; the algebra object is not among the files.
\<close>

definition innerProduct :: "jsnum list \<Rightarrow> jsnum list \<Rightarrow> nat \<Rightarrow> jsnum" where
  "innerProduct a b n =
     foldl (\<lambda>s i. js_add s (js_mul (js_nth a i) (js_nth b i))) (Fin 0) [0..<n]"



subsection \<open>updateStdform\<close>


subsection \<open>getRise and getSlope\<close>

definition getRise :: "line \<Rightarrow> jsnum" where
  "getRise L =
     (let p1Scr = scrCoords (point1 L);
          p2Scr = scrCoords (point2 L)
      in js_round
           (js_sub (js_nth p1Scr 2)
              (js_div (js_mul (js_nth p1Scr 1) (js_sub (js_nth p2Scr 2) (js_nth p1Scr 2)))
                      (js_sub (js_nth p2Scr 1) (js_nth p1Scr 1)))))"

text \<open>The result of \<open>getSlope\<close>: a number (\<open>SlopeNum\<close>), or the string \<open>"INF"\<close> (\<open>SlopeINF\<close>).\<close>

datatype slope = SlopeINF | SlopeNum jsnum

text \<open>\<open>usesUsr\<close> is the test of \<open>getSlope\<close> that replaces the screen coordinates by
  the user coordinates.\<close>

definition usesUsr :: "line \<Rightarrow> bool" where
  "usesUsr L =
     js_le (js_abs (js_sub (js_nth (scrCoords (point2 L)) 1) (js_nth (scrCoords (point1 L)) 1)))
           (js_abs (js_sub (js_nth (usrCoords (point2 L)) 1) (js_nth (usrCoords (point1 L)) 1)))"

definition getSlope :: "board \<Rightarrow> line \<Rightarrow> slope" where
  "getSlope B L =
     (let p1scr = (if usesUsr L then usrCoords (point1 L) else scrCoords (point1 L));
          p2scr = (if usesUsr L then usrCoords (point2 L) else scrCoords (point2 L))
      in if js_ge (js_abs (js_sub (js_nth p2scr 1) (js_nth p1scr 1))) (Math_eps B)
         then SlopeNum (js_div (js_sub (js_nth p2scr 2) (js_nth p1scr 2))
                            (js_sub (js_nth p2scr 1) (js_nth p1scr 1)))
         else SlopeINF)"

subsection \<open>hasPoint\<close>

text \<open>
  The loop \<open>for (i = -this.r; i < this.r; i++) has = has | (...)\<close> of the branch for a
  line that is not vertical. \<open>hasPoint\<close> returns \<open>true\<close>, \<open>false\<close>, \<open>0\<close> or
  \<open>1\<close>; the model returns the truth value of the result.
\<close>

function bandLoop :: "line \<Rightarrow> jsnum \<Rightarrow> jsnum \<Rightarrow> jsnum \<Rightarrow> jsnum \<Rightarrow> int \<Rightarrow> bool \<Rightarrow> bool" where
  "bandLoop L slope rise x y i has =
     (if i < hp_r L
      then bandLoop L slope rise x y (i + 1)
             (has \<or> js_lt (js_abs (js_sub y (js_add (js_mul slope (js_add x (Fin (of_int i)))) rise)))
                           (Fin (of_int (hp_r L))))
      else has)"
  by pat_completeness auto
termination
  by (relation "measure (\<lambda>(L, slope, rise, x, y, i, has). nat (hp_r L - i))") auto

declare bandLoop.simps [simp del]

text \<open>The coefficients of the line in screen coordinates, as the branch of
  \<open>hasPoint\<close> for a line that extends on both sides computes them.\<close>

definition screenStdform :: "board \<Rightarrow> line \<Rightarrow> jsnum list" where
  "screenStdform B L =
     [js_add
        (js_sub (js_nth (stdform L) 0)
           (js_div (js_mul (js_nth (stdform L) 1) (js_nth (scrCoords (origin B)) 1))
                   (js_mul (unitX B) (zoomX B))))
        (js_div (js_mul (js_nth (stdform L) 2) (js_nth (scrCoords (origin B)) 2))
                (js_mul (unitY B) (zoomY B))),
      js_div (js_nth (stdform L) 1) (js_mul (unitX B) (zoomX B)),
      js_div (js_nth (stdform L) 2) (js_mul (js_neg (unitY B)) (zoomY B))]"

definition hasPoint :: "board \<Rightarrow> line \<Rightarrow> jsnum \<Rightarrow> jsnum \<Rightarrow> bool" where
  "hasPoint B L x y =
     (let coords = coordsByScreen B x y;
          slope = getSlope B L;
          rise = getRise L
      in if straightFirst L \<and> straightLast L then
           (let c = screenStdform B L;
                s = innerProduct c (scrCoords coords) 3
            in (if js_lt (js_abs s) (Fin (1 / 2)) then True else False))
         else
           (let p1Scr = scrCoords (point1 L);
                p2Scr = scrCoords (point2 L)
            in case slope of
                 SlopeNum m \<Rightarrow>
                   (let has = bandLoop L m rise x y (- hp_r L) False
                    in if has then
                         (let distP1P = distanceScr coords (point1 L);
                              distP2P = distanceScr coords (point2 L);
                              distP1P2 = distanceScr (point1 L) (point2 L)
                          in if js_gt distP1P distP1P2 \<or> js_gt distP2P distP1P2 then
                               (if js_lt distP1P distP2P
                                then (if \<not> straightFirst L then False else has)
                                else (if \<not> straightLast L then False else has))
                             else has)
                       else has)
               | SlopeINF \<Rightarrow>
                   (let has = js_lt (js_abs (js_sub x (js_nth p1Scr 1))) (Fin (of_int (hp_r L)))
                    in if has then
                         (let has1 =
                                (if \<not> straightFirst L then
                                   (if js_lt (js_nth p1Scr 2) (js_nth p2Scr 2)
                                    then (if js_lt y (js_nth p1Scr 2) then False else has)
                                    else if js_gt (js_nth p1Scr 2) (js_nth p2Scr 2)
                                    then (if js_gt y (js_nth p1Scr 2) then False else has)
                                    else has)
                                 else has)
                          in if \<not> straightLast L then
                               (if js_lt (js_nth p1Scr 2) (js_nth p2Scr 2)
                                then (if js_gt y (js_nth p2Scr 2) then False else has1)
                                else if js_gt (js_nth p1Scr 2) (js_nth p2Scr 2)
                                then (if js_lt y (js_nth p2Scr 2) then False else has1)
                                else has1)
                             else has1)
                       else has)))"

subsection \<open>Example lines\<close>

text \<open>A position with the given user and screen coordinates, and a line through two of
  them with the flags a freshly constructed line has.\<close>

definition mkCoords :: "jsnum \<Rightarrow> jsnum \<Rightarrow> jsnum \<Rightarrow> jsnum \<Rightarrow> coords" where
  "mkCoords ux uy sx sy = \<lparr>usrCoords = [Fin 1, ux, uy], scrCoords = [Fin 1, sx, sy]\<rparr>"

definition exampleLine :: "coords \<Rightarrow> coords \<Rightarrow> line" where
  "exampleLine p q =
     \<lparr>point1 = p, point2 = q,
      stdform = [Fin 1, Fin 0, Fin 0, Fin 0, Fin 1, Fin 1, Fin 0, Fin 0],
      hp_r = 5, straightFirst = True, straightLast = True,
      visible = True, needsUpdate = True, isReal = True\<rparr>"

text \<open>A board whose screen coordinates are the user coordinates with the y axis
  flipped, with the tolerance \<open>JXG.Math.eps = 0.000001\<close>.\<close>

definition exampleBoard :: board where
  "exampleBoard =
     \<lparr>unitX = Fin 1, unitY = Fin 1, zoomX = Fin 1, zoomY = Fin 1,
      origin = mkCoords (Fin 0) (Fin 0) (Fin 0) (Fin 0),
      boundingBox = [Fin (- 5), Fin 5, Fin 5, Fin (- 5)],
      Math_eps = Fin (1 / 1000000)\<rparr>"

definition hiddenLine :: line where
  "hiddenLine =
     (exampleLine (mkCoords (Fin 0) (Fin 0) (Fin 0) (Fin 0))
                  (mkCoords (Fin 1) (Fin 1) (Fin 1) (Fin (- 1))))\<lparr>visible := False\<rparr>"

definition infiniteEndLine :: line where
  "infiniteEndLine =
     (exampleLine (mkCoords PInf (Fin 0) PInf (Fin 0))
                  (mkCoords (Fin 1) (Fin 1) (Fin 1) (Fin (- 1))))\<lparr>isReal := False\<rparr>"

text \<open>A line whose first two coordinates are \<open>2\<^sup>1\<^sup>0\<^sup>2\<^sup>3\<close>, so that their sum overflows,
  and whose third is \<open>-Infinity\<close>.\<close>

definition overflowLine :: line where
  "overflowLine =
     exampleLine (mkCoords (Fin (2 ^ 1023)) (Fin (2 ^ 1023)) (Fin (2 ^ 1023)) (Fin (- (2 ^ 1023))))
                 (mkCoords NInf (Fin 0) NInf (Fin 0))"

definition nanLine :: line where
  "nanLine =
     exampleLine (mkCoords (Fin 0) NaN (Fin 0) NaN)
                 (mkCoords (Fin 1) (Fin 1) (Fin 1) (Fin (- 1)))"

definition revivedLine :: line where
  "revivedLine =
     (exampleLine (mkCoords (Fin 0) (Fin 0) (Fin 0) (Fin 0))
                  (mkCoords (Fin 1) (Fin 1) (Fin 1) (Fin (- 1))))\<lparr>isReal := False\<rparr>"







definition tinySegment :: line where
  "tinySegment =
     (exampleLine (mkCoords (Fin 0) (Fin 0) (Fin 0) (Fin 0))
                  (mkCoords (Fin (1 / 2000000)) (Fin 0) (Fin (1 / 2000000)) (Fin 0)))
       \<lparr>straightFirst := False, straightLast := False\<rparr>"

definition diagonalSegment :: line where
  "diagonalSegment =
     (exampleLine (mkCoords (Fin 0) (Fin 0) (Fin 0) (Fin 0))
                  (mkCoords (Fin 1) (Fin 1) (Fin 1) (Fin (- 1))))
       \<lparr>straightFirst := False, straightLast := False\<rparr>"

definition verticalSegment :: line where
  "verticalSegment =
     (exampleLine (mkCoords (Fin 0) (Fin 0) (Fin 0) (Fin 0))
                  (mkCoords (Fin 0) (Fin (- 4)) (Fin 0) (Fin 4)))
       \<lparr>straightFirst := False, straightLast := False\<rparr>"

section \<open>The grid\<close>

subsection \<open>More operations on JavaScript numbers\<close>

fun js_sin :: "jsnum \<Rightarrow> jsnum" where
  "js_sin (Fin a) = Fin (sin a)"
| "js_sin _ = NaN"

fun js_cos :: "jsnum \<Rightarrow> jsnum" where
  "js_cos (Fin a) = Fin (cos a)"
| "js_cos _ = NaN"


subsection \<open>Attributes\<close>

text \<open>
  The value of an attribute that holds a length or a count: the string \<open>'auto'\<close>, a
  number (or a string that is a number), or a string with one of the units \<open>%\<close>,
  \<open>fr\<close> and \<open>px\<close>. An attribute such as \<open>majorStep\<close> holds one value or an array
  of them.
\<close>

datatype attrval = Auto | Number jsnum | Percent jsnum | Fraction jsnum | Pixels jsnum

datatype attr = Scalar attrval | Array "attrval list"

datatype forceSquare = FsMin | FsMax | FsTrue | FsOther

text \<open>\<open>parseFloat\<close> reads the leading number of a string; \<open>'auto'\<close> has none.\<close>

fun parseFloat :: "attrval \<Rightarrow> jsnum" where
  "parseFloat Auto = NaN"
| "parseFloat (Number n) = n"
| "parseFloat (Percent n) = n"
| "parseFloat (Fraction n) = n"
| "parseFloat (Pixels n) = n"

text \<open>
  Modelled from the spec: \<open>Type.parseNumber(v, percentOfWhat, convPx)\<close>, which is not
  among the files. The spec has it parse a literal or a percentage of the bounding
  box; the comment at its call adds the units \<open>px\<close>, \<open>abs\<close> and \<open>fr\<close>: a
  percentage and a fraction are taken of \<open>percentOfWhat\<close>, pixels are converted by
  \<open>convPx\<close>.
\<close>

fun parseNumber :: "attrval \<Rightarrow> jsnum \<Rightarrow> jsnum \<Rightarrow> jsnum" where
  "parseNumber (Percent n) percentOfWhat convPx = js_mul (js_mul n percentOfWhat) (Fin (1 / 100))"
| "parseNumber (Fraction n) percentOfWhat convPx = js_mul n percentOfWhat"
| "parseNumber (Pixels n) percentOfWhat convPx = js_mul n convPx"
| "parseNumber v percentOfWhat convPx = parseFloat v"

text \<open>\<open>Type.isString(v) && v.indexOf('%') > -1\<close>\<close>

fun hasPercent :: "attrval \<Rightarrow> bool" where
  "hasPercent (Percent n) = True"
| "hasPercent _ = False"


text \<open>Reading an entry of an array of attribute values; \<open>undefined\<close> outside of it,
  which \<open>parseFloat\<close> turns into \<open>NaN\<close> and which is neither \<open>'auto'\<close> nor a
  number.\<close>

datatype entry = Undefined | Val attrval

definition attr_nth :: "attrval list \<Rightarrow> nat \<Rightarrow> entry" where
  "attr_nth a i = (if i < length a then Val (a ! i) else Undefined)"

subsection \<open>The elements\<close>

text \<open>
  The entries of \<open>visProp\<close> of a grid that the code reads or writes, the two curves
  \<open>majorGrid\<close> and \<open>minorGrid\<close>, a parent axis as far as the grid asks it
  (\<open>ticks[0].getDistanceMajorTicks()\<close> and the attribute \<open>ticks.minorticks\<close>), and
  the variables of \<open>JXG.createGrid\<close> that its two \<open>updateDataArray\<close> functions
  share. \<open>majorStep\<close> is \<open>undefined\<close> until the major grid is updated for the first
  time; the two radii are \<open>undefined\<close> as well, which arithmetic reads as \<open>NaN\<close>.
\<close>

record gridAttrs =
  gridx :: "attrval option"
  gridy :: "attrval option"
  sizex :: "attrval option"
  sizey :: "attrval option"
  face :: string
  drawzero0 :: bool
  drawzerox :: bool
  drawzeroy :: bool
  includeboundaries :: bool
  forcesquare :: forceSquare
  majorstep :: attr
  minorelements :: attr
  polygonvertices :: jsnum
  margin :: jsnum
  linecap :: string

record grid =
  visProp :: gridAttrs
  bezierDegree :: nat
  dataX :: "jsnum list"
  dataY :: "jsnum list"

record axis =
  distanceMajorTicks :: jsnum
  minorticks :: jsnum

record gridState =
  gboard :: board
  parentAxes :: "axis option list"
  majorStep :: "jsnum list option"
  majorRadiusX :: jsnum
  majorRadiusY :: jsnum
  majorGrid :: grid
  minorGrid :: grid

definition axis_nth :: "axis option list \<Rightarrow> nat \<Rightarrow> axis option" where
  "axis_nth a i = (if i < length a then a ! i else None)"

subsection \<open>createDataArrayForFace\<close>

text \<open>\<open>face.toLowerCase()\<close>, on the letters of ASCII.\<close>

definition lowerChar :: "char \<Rightarrow> char" where
  "lowerChar c =
     (case map_of (zip ''ABCDEFGHIJKLMNOPQRSTUVWXYZ'' ''abcdefghijklmnopqrstuvwxyz'') c of
        Some d \<Rightarrow> d
      | None \<Rightarrow> c)"

definition toLowerCase :: "string \<Rightarrow> string" where
  "toLowerCase s = map lowerChar s"

text \<open>
  The loop of the face \<open>regpol\<close>:
  \<open>for (t = 0; t <= 2 * Math.PI; t += (2 * Math.PI) / n) { push; push }\<close>.
  The angle \<open>t\<close> decides how often the loop runs, and it is computed as the engine
  does, with every operation rounded. The loop does not end for every \<open>n\<close>, so its
  result is an option: \<open>None\<close> when the loop runs forever.
\<close>

definition twoPi :: jsnum where
  "twoPi = fl_mul (Fin 2) (Fin Math_PI)"

partial_function (option) regpolLoop ::
  "jsnum \<Rightarrow> jsnum \<Rightarrow> jsnum \<Rightarrow> jsnum \<Rightarrow> jsnum \<Rightarrow> jsnum \<Rightarrow> jsnum list \<times> jsnum list
     \<Rightarrow> (jsnum list \<times> jsnum list) option" where
  "regpolLoop n x y radiusX radiusY t array =
     (if js_le t twoPi
      then regpolLoop n x y radiusX radiusY (fl_add t (fl_div twoPi n))
             (fst array @ [js_sub x (js_mul radiusX (js_sin t))],
              snd array @ [js_sub y (js_mul radiusY (js_cos t))])
      else Some array)"

text \<open>
  The result is the grid, whose \<open>visProp.linecap\<close> and \<open>bezierDegree\<close> some faces
  set, and the two coordinate arrays.
\<close>

definition setLinecap :: "string \<Rightarrow> grid \<Rightarrow> grid" where
  "setLinecap c g = g\<lparr>visProp := (visProp g)\<lparr>linecap := c\<rparr>\<rparr>"

definition createDataArrayForFace ::
  "string \<Rightarrow> board \<Rightarrow> grid \<Rightarrow> jsnum \<Rightarrow> jsnum \<Rightarrow> jsnum \<Rightarrow> jsnum \<Rightarrow> jsnum list
     \<Rightarrow> (grid \<times> jsnum list \<times> jsnum list) option" where
  "createDataArrayForFace fc B g x y radiusX radiusY bbox =
     (let f = toLowerCase fc in
      if f = ''.'' \<or> f = ''point'' then
        Some (setLinecap ''round'' g, [x, x, NaN], [y, y, NaN])
      else if f = ''o'' \<or> f = ''circle'' then
        (let q = Fin (4 * tan (pi / 8) / 3) in
         Some ((setLinecap ''square'' g)\<lparr>bezierDegree := 3\<rparr>,
           [js_add x radiusX, js_add x radiusX, js_add x (js_mul q radiusX), x,
            js_sub x (js_mul q radiusX), js_sub x radiusX, js_sub x radiusX, js_sub x radiusX,
            js_sub x (js_mul q radiusX), x, js_add x (js_mul q radiusX), js_add x radiusX,
            js_add x radiusX, NaN],
           [y, js_add y (js_mul q radiusY), js_add y radiusY, js_add y radiusY,
            js_add y radiusY, js_add y (js_mul q radiusY), y, js_sub y (js_mul q radiusY),
            js_sub y radiusY, js_sub y radiusY, js_sub y radiusY, js_sub y (js_mul q radiusY),
            y, NaN]))
      else if f = ''regpol'' \<or> f = ''regularpolygon'' then
        Option.bind (regpolLoop (polygonvertices (visProp g)) x y radiusX radiusY (Fin 0) ([], []))
          (\<lambda>array. Some (setLinecap ''round'' g, fst array @ [NaN], snd array @ [NaN]))
      else if f = ''[]'' \<or> f = ''square'' then
        Some (setLinecap ''square'' g,
          [js_sub x radiusX, js_add x radiusX, js_add x radiusX, js_sub x radiusX,
           js_sub x radiusX, NaN],
          [js_add y radiusY, js_add y radiusY, js_sub y radiusY, js_sub y radiusY,
           js_add y radiusY, NaN])
      else if f = ''<>'' \<or> f = ''diamond'' then
        Some (setLinecap ''square'' g,
          [x, js_add x radiusX, x, js_sub x radiusX, x, NaN],
          [js_add y radiusY, y, js_sub y radiusY, y, js_add y radiusY, NaN])
      else if f = ''<<>>'' \<or> f = ''diamond2'' then
        (let rx2 = js_mul radiusX (Fin (sqrt 2));
             ry2 = js_mul radiusY (Fin (sqrt 2)) in
         Some (setLinecap ''square'' g,
           [x, js_add x rx2, x, js_sub x rx2, x, NaN],
           [js_add y ry2, y, js_sub y ry2, y, js_add y ry2, NaN]))
      else if f = ''x'' \<or> f = ''cross'' then
        Some (g,
          [js_sub x radiusX, js_add x radiusX, NaN, js_sub x radiusX, js_add x radiusX, NaN],
          [js_add y radiusY, js_sub y radiusY, NaN, js_sub y radiusY, js_add y radiusY, NaN])
      else if f = ''+'' \<or> f = ''plus'' then
        Some (g,
          [js_sub x radiusX, js_add x radiusX, NaN, x, x, NaN],
          [y, y, NaN, js_sub y radiusY, js_add y radiusY, NaN])
      else if f = ''-'' \<or> f = ''minus'' then
        Some (g, [js_sub x radiusX, js_add x radiusX, NaN], [y, y, NaN])
      else if f = ''|'' \<or> f = ''divide'' then
        Some (g, [x, x, NaN], [js_sub y radiusY, js_add y radiusY, NaN])
      else if f = ''^'' \<or> f = ''a'' \<or> f = ''A'' \<or> f = ''triangleup'' then
        Some (g,
          [js_sub x radiusX, x, js_add x radiusX, NaN],
          [js_sub y radiusY, y, js_sub y radiusY, NaN])
      else if f = ''v'' \<or> f = ''triangledown'' then
        Some (g,
          [js_sub x radiusX, x, js_add x radiusX, NaN],
          [js_add y radiusY, y, js_add y radiusY, NaN])
      else if f = ''<'' \<or> f = ''triangleleft'' then
        Some (g,
          [js_add x radiusX, x, js_add x radiusX, NaN],
          [js_add y radiusY, y, js_sub y radiusY, NaN])
      else if f = ''>'' \<or> f = ''triangleright'' then
        Some (g,
          [js_sub x radiusX, x, js_sub x radiusX, NaN],
          [js_add y radiusY, y, js_sub y radiusY, NaN])
      else if f = ''line'' then
        (let m = margin (visProp g) in
         Some (g,
           [x, x, NaN, js_sub (js_nth bbox 0) (js_div m (unitX B)),
            js_add (js_nth bbox 2) (js_div m (unitX B)), NaN],
           [js_add (js_nth bbox 1) (js_div m (unitY B)),
            js_sub (js_nth bbox 3) (js_div m (unitY B)), NaN, y, y, NaN]))
      else Some (g, [], []))"

subsection \<open>majorGrid.updateDataArray\<close>

text \<open>
  \<open>Type.evaluate\<close> of an attribute that may be an array, brought to two entries as
  the code does: a single value is doubled, an array with fewer than two entries is
  replaced by its first entry doubled. The flag tells whether the result is still the
  array stored in \<open>visProp\<close>, so that the later assignments to its entries change
  the attribute as well.
\<close>

definition twoEntries :: "attr \<Rightarrow> entry list \<times> bool" where
  "twoEntries a =
     (case a of
        Scalar v \<Rightarrow> ([Val v, Val v], False)
      | Array vs \<Rightarrow>
          if length vs < 2 then ([attr_nth vs 0, attr_nth vs 0], False)
          else (map Val vs, True))"

text \<open>The attribute after the assignment of two numbers to the first two entries of
  the array.\<close>

definition writeBack :: "attr \<Rightarrow> jsnum \<Rightarrow> jsnum \<Rightarrow> attr" where
  "writeBack a n0 n1 =
     (case a of
        Scalar v \<Rightarrow> Scalar v
      | Array vs \<Rightarrow>
          if length vs < 2 then Array vs
          else Array (Number n0 # Number n1 # drop 2 vs))"

definition existsOr :: "attrval option \<Rightarrow> entry \<Rightarrow> entry" where
  "existsOr v e = (case v of Some w \<Rightarrow> Val w | None \<Rightarrow> e)"

fun parseNumberEntry :: "entry \<Rightarrow> jsnum \<Rightarrow> jsnum \<Rightarrow> jsnum" where
  "parseNumberEntry Undefined percentOfWhat convPx = NaN"
| "parseNumberEntry (Val v) percentOfWhat convPx = parseNumber v percentOfWhat convPx"

text \<open>One entry of \<open>majorStep\<close>: \<open>'auto'\<close> takes the distance of the major ticks of
  the parent axis, or \<open>1\<close> without an axis; everything else is parsed.\<close>

definition resolveStep :: "entry \<Rightarrow> axis option \<Rightarrow> jsnum \<Rightarrow> jsnum \<Rightarrow> jsnum" where
  "resolveStep e ax percentOfWhat convPx =
     (if e = Val Auto then
        (case ax of Some a \<Rightarrow> distanceMajorTicks a | None \<Rightarrow> Fin 1)
      else parseNumberEntry e percentOfWhat convPx)"

text \<open>The branch \<open>forceSquare\<close>: one entry is recomputed from the other, by a division
  and a multiplication that both round.\<close>

definition applyForceSquare ::
  "forceSquare \<Rightarrow> jsnum \<Rightarrow> jsnum \<Rightarrow> jsnum \<times> jsnum \<Rightarrow> jsnum \<times> jsnum" where
  "applyForceSquare fs ux uy s =
     (if fs = FsMin then
        (if js_le (fl_mul (fst s) ux) (fl_mul (snd s) uy)
         then (fst s, fl_mul (fl_div (fst s) uy) ux)
         else (fl_mul (fl_div (snd s) ux) uy, snd s))
      else if fs = FsMax \<or> fs = FsTrue then
        (if js_le (fl_mul (fst s) ux) (fl_mul (snd s) uy)
         then (fl_mul (fl_div (snd s) ux) uy, snd s)
         else (fst s, fl_mul (fl_div (fst s) uy) ux))
      else s)"

text \<open>The two entries of \<open>majorStep\<close> at the end of the part of the function that
  "sets the global majorStep".\<close>

definition resolveMajorStep :: "board \<Rightarrow> axis option list \<Rightarrow> gridAttrs \<Rightarrow> jsnum \<times> jsnum" where
  "resolveMajorStep B axes vp =
     (let bbox = boundingBox B;
          ms = fst (twoEntries (majorstep vp));
          e0 = existsOr (gridx vp) (ms ! 0);
          e1 = existsOr (gridy vp) (ms ! 1);
          s0 = resolveStep e0 (axis_nth axes 0)
                 (js_abs (js_sub (js_nth bbox 1) (js_nth bbox 3))) (js_div (Fin 1) (unitX B));
          s1 = resolveStep e1 (axis_nth axes 1)
                 (js_abs (js_sub (js_nth bbox 0) (js_nth bbox 2))) (js_div (Fin 1) (unitY B))
      in applyForceSquare (forcesquare vp) (unitX B) (unitY B) (s0, s1))"

text \<open>\<open>sizeX\<close> and \<open>sizeY\<close> after the defaults are filled in.\<close>

definition sizeXOf :: "attrval option \<Rightarrow> attrval option \<Rightarrow> jsnum \<Rightarrow> attrval" where
  "sizeXOf sx sy dflt =
     (case sx of Some v \<Rightarrow> v
      | None \<Rightarrow> (case sy of Some w \<Rightarrow> w | None \<Rightarrow> Number dflt))"

definition sizeYOf :: "attrval option \<Rightarrow> attrval option \<Rightarrow> jsnum \<Rightarrow> attrval" where
  "sizeYOf sx sy dflt = (case sy of Some w \<Rightarrow> w | None \<Rightarrow> sizeXOf sx sy dflt)"

definition majorRadius :: "attrval \<Rightarrow> jsnum \<Rightarrow> jsnum \<Rightarrow> jsnum" where
  "majorRadius sz step unit =
     (if hasPercent sz
      then js_div (js_mul (js_div (parseFloat sz) (Fin 100)) step) (Fin 2)
      else js_div (js_div (parseFloat sz) unit) (Fin 2))"

text \<open>The local variables that the two loops read.\<close>

record majorLocals =
  ml_board :: board
  ml_bbox :: "jsnum list"
  ml_step0 :: jsnum
  ml_step1 :: jsnum
  ml_radiusX :: jsnum
  ml_radiusY :: jsnum
  ml_startX :: jsnum
  ml_finite :: bool
  ml_face :: string
  ml_drawZero0 :: bool
  ml_drawZeroX :: bool
  ml_drawZeroY :: bool
  ml_includeBoundaries :: bool

text \<open>The condition under which a position of the major grid is left out.\<close>

definition majorSkip :: "majorLocals \<Rightarrow> jsnum \<Rightarrow> jsnum \<Rightarrow> bool" where
  "majorSkip E x y =
     (let eps = Math_eps (ml_board E); bbox = ml_bbox E in
      (\<not> ml_drawZero0 E \<and> js_lt (js_abs y) eps \<and> js_lt (js_abs x) eps) \<or>
      (\<not> ml_drawZeroX E \<and> js_lt (js_abs y) eps \<and> js_ge (js_abs x) eps) \<or>
      (\<not> ml_drawZeroY E \<and> js_lt (js_abs x) eps \<and> js_ge (js_abs y) eps) \<or>
      (\<not> ml_includeBoundaries E \<and>
         (js_le x (js_add (js_nth bbox 0) (ml_radiusX E)) \<or>
          js_ge x (js_sub (js_nth bbox 2) (ml_radiusX E)) \<or>
          js_le y (js_add (js_nth bbox 3) (ml_radiusY E)) \<or>
          js_ge y (js_sub (js_nth bbox 1) (ml_radiusY E)))))"

text \<open>\<open>this.dataX = this.dataX.concat(dataArr[0])\<close> and the same for \<open>dataY\<close>.\<close>

definition concatData :: "grid \<times> jsnum list \<times> jsnum list \<Rightarrow> grid" where
  "concatData r =
     (fst r)\<lparr>dataX := dataX (fst r) @ fst (snd r), dataY := dataY (fst r) @ snd (snd r)\<rparr>"

text \<open>The inner loop, over \<open>x\<close>, and the outer loop, over \<open>y\<close>. Neither needs to
  end (a step may be negative), so both return an option.\<close>

partial_function (option) majorRow :: "majorLocals \<Rightarrow> jsnum \<Rightarrow> jsnum \<Rightarrow> grid \<Rightarrow> grid option" where
  "majorRow E y x g =
     (if ml_finite E \<and> js_le x (js_nth (ml_bbox E) 2) then
        (if majorSkip E x y then majorRow E y (js_add x (ml_step0 E)) g
         else Option.bind
                (createDataArrayForFace (ml_face E) (ml_board E) g x y
                   (ml_radiusX E) (ml_radiusY E) (ml_bbox E))
                (\<lambda>r. majorRow E y (js_add x (ml_step0 E)) (concatData r)))
      else Some g)"

partial_function (option) majorCol :: "majorLocals \<Rightarrow> jsnum \<Rightarrow> grid \<Rightarrow> grid option" where
  "majorCol E y g =
     (if ml_finite E \<and> js_ge y (js_nth (ml_bbox E) 3) then
        Option.bind (majorRow E y (ml_startX E) g)
          (\<lambda>g'. majorCol E (js_sub y (ml_step1 E)) g')
      else Some g)"

text \<open>\<open>maxLines\<close>, the "maximum number of vertical or horizontal grid elements".\<close>

definition maxLines :: jsnum where
  "maxLines = Fin 5000"

text \<open>
  The function. \<open>roundToStep\<close> stands for \<open>Mat.roundToStep\<close>, which is not among
  the files. The result is \<open>None\<close> when a loop does not end.
\<close>

definition majorLocalsOf :: "(jsnum \<Rightarrow> jsnum \<Rightarrow> jsnum) \<Rightarrow> gridState \<Rightarrow> majorLocals" where
  "majorLocalsOf roundToStep S =
     (let B = gboard S;
          bbox = boundingBox B;
          vp = visProp (majorGrid S);
          s = resolveMajorStep B (parentAxes S) vp;
          sizeX = sizeXOf (sizex vp) (sizey vp) (Fin 5);
          sizeY = sizeYOf (sizex vp) (sizey vp) (Fin 5);
          startX = roundToStep (js_nth bbox 0) (fst s);
          startY = roundToStep (js_nth bbox 1) (snd s)
      in \<lparr>ml_board = B, ml_bbox = bbox, ml_step0 = fst s, ml_step1 = snd s,
          ml_radiusX = majorRadius sizeX (fst s) (unitX B),
          ml_radiusY = majorRadius sizeY (snd s) (unitY B),
          ml_startX = startX,
          ml_finite =
            (js_isFinite startX \<and> js_isFinite startY \<and>
             js_isFinite (js_nth bbox 2) \<and> js_isFinite (js_nth bbox 3) \<and>
             js_lt (js_abs (js_nth bbox 2)) (js_abs (js_mul (fst s) maxLines)) \<and>
             js_lt (js_abs (js_nth bbox 3)) (js_abs (js_mul (snd s) maxLines))),
          ml_face = face vp,
          ml_drawZero0 = drawzero0 vp, ml_drawZeroX = drawzerox vp,
          ml_drawZeroY = drawzeroy vp,
          ml_includeBoundaries = includeboundaries vp\<rparr>)"

definition majorGrid_updateDataArray ::
  "(jsnum \<Rightarrow> jsnum \<Rightarrow> jsnum) \<Rightarrow> gridState \<Rightarrow> gridState option" where
  "majorGrid_updateDataArray roundToStep S =
     (let E = majorLocalsOf roundToStep S;
          vp = visProp (majorGrid S);
          g = (majorGrid S)
                \<lparr>visProp := vp\<lparr>majorstep := writeBack (majorstep vp) (ml_step0 E) (ml_step1 E)\<rparr>,
                 dataX := [], dataY := []\<rparr>;
          startY = roundToStep (js_nth (ml_bbox E) 1) (ml_step1 E)
      in Option.bind (majorCol E startY g)
           (\<lambda>g'. Some (S\<lparr>majorStep := Some [ml_step0 E, ml_step1 E],
                          majorRadiusX := ml_radiusX E,
                          majorRadiusY := ml_radiusY E,
                          majorGrid := g'\<rparr>)))"

text \<open>\<open>majorGrid.hasPoint\<close> and \<open>minorGrid.hasPoint\<close>:
  \<open>function () { return false; }\<close>, whatever the arguments.\<close>

definition majorGrid_hasPoint :: "gridState \<Rightarrow> jsnum \<Rightarrow> jsnum \<Rightarrow> bool" where
  "majorGrid_hasPoint S x y = False"

definition minorGrid_hasPoint :: "gridState \<Rightarrow> jsnum \<Rightarrow> jsnum \<Rightarrow> bool" where
  "minorGrid_hasPoint S x y = False"

subsection \<open>minorGrid.updateDataArray\<close>
















text \<open>
  Modelled from the spec: \<open>Mat.roundToStep(value, step)\<close>, "round down to the nearest
  multiple of step below the bounding-box edge". The functions above take it as a
  parameter; the examples use this one.
\<close>

fun roundToStepDown :: "jsnum \<Rightarrow> jsnum \<Rightarrow> jsnum" where
  "roundToStepDown (Fin v) (Fin s) = (if s = 0 then NaN else Fin (s * of_int \<lfloor>v / s\<rfloor>))"
| "roundToStepDown _ _ = NaN"

definition exampleAttrs :: gridAttrs where
  "exampleAttrs =
     \<lparr>gridx = None, gridy = None, sizex = None, sizey = None, face = ''point'',
      drawzero0 = True, drawzerox = True, drawzeroy = True, includeboundaries = True,
      forcesquare = FsOther, majorstep = Scalar (Number (Fin 1)),
      minorelements = Scalar (Number (Fin 1)),
      polygonvertices = Fin 6, margin = Fin 4, linecap = ''butt''\<rparr>"

definition exampleGrid :: grid where
  "exampleGrid = \<lparr>visProp = exampleAttrs, bezierDegree = 1, dataX = [], dataY = []\<rparr>"

definition exampleState :: "jsnum list \<Rightarrow> gridState" where
  "exampleState bbox =
     \<lparr>gboard = exampleBoard\<lparr>boundingBox := bbox\<rparr>, parentAxes = [None, None],
      majorStep = None, majorRadiusX = NaN, majorRadiusY = NaN,
      majorGrid = exampleGrid, minorGrid = exampleGrid\<rparr>"

text \<open>The regular polygon: its loop does not end when the number of vertices is
  negative or infinite.\<close>

definition isRegpol :: "string \<Rightarrow> bool" where
  "isRegpol fc = (toLowerCase fc = ''regpol'' \<or> toLowerCase fc = ''regularpolygon'')"








text \<open>A bounding box that is 6005 units wide, on a grid with step 1.\<close>

definition wideState :: gridState where
  "wideState = exampleState [Fin (- 6000), Fin 5, Fin 5, Fin (- 5)]"










section \<open>Properties of rounding\<close>

text \<open>The equations that evaluate \<open>rnd\<close> at a given number.\<close>

lemmas rnd_eval = rnd_def normal_def fromMagnitude_def normUp.simps normDown.simps
  roundHalfEven_def pow2_def Let_def






lemma rnd_not_NaN: "rnd x \<noteq> NaN"
  by (simp add: rnd_def fromMagnitude_def)




section \<open>Properties of updateRenderer\<close>

text \<open>
  Claim C1 says that \<open>needsUpdate\<close> is false after every call of \<open>updateRenderer\<close>
  on a line, whatever its visibility. The code guards the whole body, the clearing of
  the flag included, by \<open>this.needsUpdate && this.visProp['visible']\<close>: on a line
  that is not visible the flag stays set.
\<close>

theorem updateRenderer_needsUpdate_counterexample:
  "needsUpdate hiddenLine \<and> needsUpdate (fst (updateRenderer hiddenLine))"
  by (simp add: hiddenLine_def exampleLine_def updateRenderer_def)

text \<open>
  Claim C1, amended: after \<open>updateRenderer\<close> on a visible line \<open>needsUpdate\<close> is
  false, whatever \<open>isReal\<close> and the coordinates are; on a line that is not visible
  the call changes nothing and issues no renderer call.
\<close>

theorem updateRenderer_needsUpdate:
  "(visible L \<longrightarrow> \<not> needsUpdate (fst (updateRenderer L))) \<and>
   (\<not> visible L \<longrightarrow> updateRenderer L = (L, []))"
  by (simp add: updateRenderer_def Let_def)

theorem updateRenderer_needsUpdate_witness:
  "visible revivedLine \<and> needsUpdate revivedLine \<and>
   \<not> needsUpdate (fst (updateRenderer revivedLine)) \<and>
   \<not> visible hiddenLine \<and> updateRenderer hiddenLine = (hiddenLine, [])"
proof -
  have v: "visible revivedLine" "needsUpdate revivedLine"
    by (simp_all add: revivedLine_def exampleLine_def)
  have h: "\<not> visible hiddenLine"
    by (simp add: hiddenLine_def exampleLine_def)
  from updateRenderer_needsUpdate [of revivedLine] v
  have 1: "\<not> needsUpdate (fst (updateRenderer revivedLine))" by blast
  from updateRenderer_needsUpdate [of hiddenLine] h
  have 2: "updateRenderer hiddenLine = (hiddenLine, [])" by blast
  from v h 1 2 show ?thesis by blast
qed

text \<open>The sum of four numbers, added from left to right with rounding, is \<open>NaN\<close>
  when one of them is \<open>NaN\<close> or when both infinities are among them, and is not
  \<open>NaN\<close> when all four are finite, overflow or not.\<close>

lemma fl_add_isNaN:
  "js_isNaN (fl_add a b) \<longleftrightarrow>
     a = NaN \<or> b = NaN \<or> (a = PInf \<and> b = NInf) \<or> (a = NInf \<and> b = PInf)"
  using rnd_not_NaN by (cases a; cases b) (auto elim: js_isNaN.elims)

lemma fl_add_PInf:
  "\<not> js_isNaN (fl_add a b) \<Longrightarrow> a = PInf \<or> b = PInf \<Longrightarrow> fl_add a b = PInf"
  by (cases a; cases b) auto

lemma fl_add_NInf:
  "\<not> js_isNaN (fl_add a b) \<Longrightarrow> a = NInf \<or> b = NInf \<Longrightarrow> fl_add a b = NInf"
  by (cases a; cases b) auto

lemma fl_add_keeps:
  "\<not> js_isNaN u \<Longrightarrow> js_isFinite c \<Longrightarrow> \<not> js_isNaN (fl_add u c)"
  unfolding fl_add_isNaN by (cases u; cases c) simp_all

lemma fl_add4_finite:
  assumes "js_isFinite a" "js_isFinite b" "js_isFinite c" "js_isFinite d"
  shows "\<not> js_isNaN (fl_add (fl_add (fl_add a b) c) d)"
proof -
  have "\<not> js_isNaN a" using assms(1) by (cases a) simp_all
  thus ?thesis using assms by (intro fl_add_keeps)
qed

lemma fl_add_NaN:
  "js_isNaN u \<Longrightarrow> js_isNaN (fl_add u v)" "js_isNaN v \<Longrightarrow> js_isNaN (fl_add u v)"
  unfolding fl_add_isNaN by (auto elim: js_isNaN.elims)

lemma fl_add4_NaN:
  assumes "NaN \<in> {a, b, c, d}"
  shows "js_isNaN (fl_add (fl_add (fl_add a b) c) d)"
proof -
  from assms consider "a = NaN" | "b = NaN" | "c = NaN" | "d = NaN" by auto
  hence "js_isNaN a \<or> js_isNaN b \<or> js_isNaN c \<or> js_isNaN d" by cases simp_all
  thus ?thesis
    by (elim disjE) (rule fl_add_NaN | assumption)+
qed

lemma fl_add4_both:
  assumes "PInf \<in> {a, b, c, d}" "NInf \<in> {a, b, c, d}"
  shows "js_isNaN (fl_add (fl_add (fl_add a b) c) d)"
proof (rule ccontr)
  assume n3: "\<not> js_isNaN (fl_add (fl_add (fl_add a b) c) d)"
  hence n2: "\<not> js_isNaN (fl_add (fl_add a b) c)"
    unfolding fl_add_isNaN [of _ d] by (auto elim: js_isNaN.elims)
  hence n1: "\<not> js_isNaN (fl_add a b)"
    unfolding fl_add_isNaN [of _ c] by (auto elim: js_isNaN.elims)
  have p: "fl_add (fl_add (fl_add a b) c) d = PInf"
  proof -
    from assms(1) consider "a = PInf \<or> b = PInf" | "c = PInf" | "d = PInf" by auto
    thus ?thesis
    proof cases
      case 1
      from fl_add_PInf [OF n1 1] have "fl_add a b = PInf" .
      with fl_add_PInf [OF n2] have "fl_add (fl_add a b) c = PInf" by simp
      with fl_add_PInf [OF n3] show ?thesis by simp
    next
      case 2
      with fl_add_PInf [OF n2] have "fl_add (fl_add a b) c = PInf" by simp
      with fl_add_PInf [OF n3] show ?thesis by simp
    next
      case 3
      with fl_add_PInf [OF n3] show ?thesis by simp
    qed
  qed
  have q: "fl_add (fl_add (fl_add a b) c) d = NInf"
  proof -
    from assms(2) consider "a = NInf \<or> b = NInf" | "c = NInf" | "d = NInf" by auto
    thus ?thesis
    proof cases
      case 1
      from fl_add_NInf [OF n1 1] have "fl_add a b = NInf" .
      with fl_add_NInf [OF n2] have "fl_add (fl_add a b) c = NInf" by simp
      with fl_add_NInf [OF n3] show ?thesis by simp
    next
      case 2
      with fl_add_NInf [OF n2] have "fl_add (fl_add a b) c = NInf" by simp
      with fl_add_NInf [OF n3] show ?thesis by simp
    next
      case 3
      with fl_add_NInf [OF n3] show ?thesis by simp
    qed
  qed
  from p q show False by simp
qed

text \<open>The sum \<open>2\<^sup>1\<^sup>0\<^sup>2\<^sup>3 + 2\<^sup>1\<^sup>0\<^sup>2\<^sup>3\<close> overflows to \<open>Infinity\<close>, and adding \<open>-Infinity\<close>
  to it gives \<open>NaN\<close>.\<close>

lemma overflow_sum:
  "fl_add (fl_add (fl_add (Fin (2 ^ 1023)) (Fin (2 ^ 1023))) NInf) (Fin 0) = NaN"
  by (simp add: rnd_eval)

text \<open>
  Claim C2 says that \<open>updateRenderer\<close> sets \<open>isReal\<close> to true exactly when the four
  endpoint coordinates are finite. The code tests \<open>isNaN\<close> of their sum, and the sum
  of \<open>Infinity\<close> and three finite numbers is \<open>Infinity\<close>, not \<open>NaN\<close>: the line
  below has an infinite coordinate, becomes real and is shown.
\<close>

theorem updateRenderer_isReal_counterexample:
  "needsUpdate infiniteEndLine \<and> visible infiniteEndLine \<and>
   isReal (fst (updateRenderer infiniteEndLine)) \<and>
   \<not> list_all js_isFinite (endpointCoords infiniteEndLine) \<and>
   Show \<in> set (snd (updateRenderer infiniteEndLine))"
  by (simp add: infiniteEndLine_def exampleLine_def mkCoords_def updateRenderer_def
      coordSum_def endpointCoords_def js_nth_def)

text \<open>
  Claim C2, amended: a call of \<open>updateRenderer\<close> that runs (\<open>needsUpdate\<close> and
  \<open>visible\<close> both true) sets \<open>isReal\<close> to true exactly when the floating-point sum
  of the four endpoint coordinates, added from left to right, is not \<open>NaN\<close>. Four
  finite coordinates always give true, also when their sum overflows; a \<open>NaN\<close>
  coordinate gives false, and so do two coordinates that are infinities of opposite
  signs. A call that does not run changes nothing. A call after which \<open>isReal\<close> is
  false issues no \<open>show\<close>, and \<open>show\<close> is issued, once, exactly in the calls that
  take \<open>isReal\<close> from false to true.
\<close>

theorem updateRenderer_isReal:
  "(needsUpdate L \<and> visible L \<longrightarrow>
      (isReal (fst (updateRenderer L)) \<longleftrightarrow>
         \<not> js_isNaN
             (fl_add (fl_add (fl_add (js_nth (usrCoords (point1 L)) 1)
                                     (js_nth (usrCoords (point1 L)) 2))
                             (js_nth (usrCoords (point2 L)) 1))
                     (js_nth (usrCoords (point2 L)) 2)))) \<and>
   (needsUpdate L \<and> visible L \<and> list_all js_isFinite (endpointCoords L) \<longrightarrow>
      isReal (fst (updateRenderer L))) \<and>
   (needsUpdate L \<and> visible L \<and>
    (NaN \<in> set (endpointCoords L) \<or>
     (PInf \<in> set (endpointCoords L) \<and> NInf \<in> set (endpointCoords L))) \<longrightarrow>
      \<not> isReal (fst (updateRenderer L))) \<and>
   (\<not> (needsUpdate L \<and> visible L) \<longrightarrow> updateRenderer L = (L, [])) \<and>
   (\<not> isReal (fst (updateRenderer L)) \<longrightarrow> Show \<notin> set (snd (updateRenderer L))) \<and>
   count_list (snd (updateRenderer L)) Show =
     (if \<not> isReal L \<and> isReal (fst (updateRenderer L)) then 1 else 0)"
proof -
  have fin: "list_all js_isFinite (endpointCoords L) \<Longrightarrow> \<not> js_isNaN (coordSum L)"
    unfolding coordSum_def endpointCoords_def by (intro fl_add4_finite) simp_all
  have nan: "NaN \<in> set (endpointCoords L) \<Longrightarrow> js_isNaN (coordSum L)"
    unfolding coordSum_def endpointCoords_def by (intro fl_add4_NaN) simp
  have both: "PInf \<in> set (endpointCoords L) \<Longrightarrow> NInf \<in> set (endpointCoords L) \<Longrightarrow>
      js_isNaN (coordSum L)"
    unfolding coordSum_def endpointCoords_def by (intro fl_add4_both) simp_all
  have run: "needsUpdate L \<and> visible L \<Longrightarrow>
      isReal (fst (updateRenderer L)) = (\<not> js_isNaN (coordSum L))"
    by (simp add: updateRenderer_def Let_def)
  have 1: "needsUpdate L \<and> visible L \<longrightarrow>
      (isReal (fst (updateRenderer L)) \<longleftrightarrow>
         \<not> js_isNaN
             (fl_add (fl_add (fl_add (js_nth (usrCoords (point1 L)) 1)
                                     (js_nth (usrCoords (point1 L)) 2))
                             (js_nth (usrCoords (point2 L)) 1))
                     (js_nth (usrCoords (point2 L)) 2)))"
    using run by (simp add: coordSum_def)
  have 2: "needsUpdate L \<and> visible L \<and> list_all js_isFinite (endpointCoords L) \<longrightarrow>
      isReal (fst (updateRenderer L))"
    using run fin by simp
  have 3: "needsUpdate L \<and> visible L \<and>
    (NaN \<in> set (endpointCoords L) \<or>
     (PInf \<in> set (endpointCoords L) \<and> NInf \<in> set (endpointCoords L))) \<longrightarrow>
      \<not> isReal (fst (updateRenderer L))"
    using run nan both by auto
  have 4: "\<not> (needsUpdate L \<and> visible L) \<longrightarrow> updateRenderer L = (L, [])"
    by (simp add: updateRenderer_def)
  have 5: "\<not> isReal (fst (updateRenderer L)) \<longrightarrow> Show \<notin> set (snd (updateRenderer L))"
    by (simp add: updateRenderer_def Let_def)
  have 6: "count_list (snd (updateRenderer L)) Show =
     (if \<not> isReal L \<and> isReal (fst (updateRenderer L)) then 1 else 0)"
    by (simp add: updateRenderer_def Let_def)
  from 1 2 3 4 5 6 show ?thesis by (intro conjI)
qed

text \<open>
  The instances: a line with finite coordinates that becomes real and is shown; a line
  whose only infinite coordinate is \<open>-Infinity\<close> and that is not real all the same,
  the sum of its first two coordinates having overflowed to \<open>Infinity\<close>; a line with
  a \<open>NaN\<close> coordinate; a line that is not visible.
\<close>

theorem updateRenderer_isReal_witness:
  "needsUpdate revivedLine \<and> visible revivedLine \<and>
   list_all js_isFinite (endpointCoords revivedLine) \<and> \<not> isReal revivedLine \<and>
   isReal (fst (updateRenderer revivedLine)) \<and>
   count_list (snd (updateRenderer revivedLine)) Show = 1 \<and>
   needsUpdate overflowLine \<and> visible overflowLine \<and>
   NaN \<notin> set (endpointCoords overflowLine) \<and> PInf \<notin> set (endpointCoords overflowLine) \<and>
   \<not> isReal (fst (updateRenderer overflowLine)) \<and>
   Show \<notin> set (snd (updateRenderer overflowLine)) \<and>
   needsUpdate nanLine \<and> visible nanLine \<and> NaN \<in> set (endpointCoords nanLine) \<and>
   \<not> isReal (fst (updateRenderer nanLine)) \<and>
   \<not> visible hiddenLine \<and> updateRenderer hiddenLine = (hiddenLine, [])"
proof -
  note T = updateRenderer_isReal
  have a: "needsUpdate revivedLine \<and> visible revivedLine \<and>
      list_all js_isFinite (endpointCoords revivedLine)" "\<not> isReal revivedLine"
    by (simp_all add: revivedLine_def exampleLine_def mkCoords_def endpointCoords_def js_nth_def)
  have h: "\<not> visible hiddenLine"
    by (simp add: hiddenLine_def exampleLine_def)
  from T [of revivedLine] a
  have 1: "isReal (fst (updateRenderer revivedLine))" by blast
  from T [of revivedLine] a 1
  have 2: "count_list (snd (updateRenderer revivedLine)) Show = 1" by simp
  from T [of hiddenLine] h
  have 3: "updateRenderer hiddenLine = (hiddenLine, [])" by blast
  have o: "needsUpdate overflowLine \<and> visible overflowLine"
    "NaN \<notin> set (endpointCoords overflowLine) \<and> PInf \<notin> set (endpointCoords overflowLine)"
    by (simp_all add: overflowLine_def exampleLine_def mkCoords_def endpointCoords_def js_nth_def)
  have c: "js_nth (usrCoords (point1 overflowLine)) 1 = Fin (2 ^ 1023)"
    "js_nth (usrCoords (point1 overflowLine)) 2 = Fin (2 ^ 1023)"
    "js_nth (usrCoords (point2 overflowLine)) 1 = NInf"
    "js_nth (usrCoords (point2 overflowLine)) 2 = Fin 0"
    by (simp_all add: overflowLine_def exampleLine_def mkCoords_def js_nth_def)
  have "js_isNaN
      (fl_add (fl_add (fl_add (js_nth (usrCoords (point1 overflowLine)) 1)
                              (js_nth (usrCoords (point1 overflowLine)) 2))
                      (js_nth (usrCoords (point2 overflowLine)) 1))
              (js_nth (usrCoords (point2 overflowLine)) 2))"
    unfolding c overflow_sum by simp
  with T [of overflowLine] o
  have 4: "\<not> isReal (fst (updateRenderer overflowLine))" by blast
  with T [of overflowLine]
  have 5: "Show \<notin> set (snd (updateRenderer overflowLine))" by blast
  have n: "needsUpdate nanLine \<and> visible nanLine \<and> NaN \<in> set (endpointCoords nanLine)"
    by (simp add: nanLine_def exampleLine_def mkCoords_def endpointCoords_def js_nth_def)
  with T [of nanLine]
  have 6: "\<not> isReal (fst (updateRenderer nanLine))" by blast
  from a 1 2 o 4 5 n 6 h 3 show ?thesis by blast
qed

section \<open>Properties of hasPoint on a line that extends on both sides\<close>

lemmas ex_defs = exampleBoard_def exampleLine_def mkCoords_def js_nth_def js_sub_def
  js_le_def js_ge_def js_gt_def





section \<open>Properties of updateStdform\<close>





section \<open>Properties of getSlope\<close>




section \<open>Properties of hasPoint on a segment\<close>

lemma sqrt9: "sqrt 9 = 3"
  by (rule real_sqrt_unique) simp_all

text \<open>
  Claim C6 says that a segment rejects every point whose distance to the far endpoint
  exceeds the distance of the endpoints. When \<open>getSlope\<close> returns \<open>"INF"\<close> the code
  clamps by the order of the screen y-coordinates instead, and not at all when the two
  endpoints have the same y: the segment below runs from \<open>(0, 0)\<close> to
  \<open>(0.0000005, 0)\<close>, and the point \<open>(3, 0)\<close>, on its line and far beyond the second
  endpoint, is accepted.
\<close>

theorem hasPoint_segment_counterexample:
  "\<not> straightFirst tinySegment \<and> \<not> straightLast tinySegment \<and>
   js_gt (distanceScr (coordsByScreen exampleBoard (Fin 3) (Fin 0)) (point1 tinySegment))
         (distanceScr (point1 tinySegment) (point2 tinySegment)) \<and>
   hasPoint exampleBoard tinySegment (Fin 3) (Fin 0)"
proof -
  have "sqrt (1 / 4000000000000) < 3"
    by (rule real_less_lsqrt) simp_all
  thus ?thesis
    by (simp add: hasPoint_def getSlope_def usesUsr_def tinySegment_def distanceScr_def
        coordsByScreen_def ex_defs sqrt9)
qed

text \<open>
  Claim C6, amended: on a segment (\<open>straightFirst\<close> and \<open>straightLast\<close> false)
  whose slope is not \<open>"INF"\<close>, \<open>hasPoint\<close> rejects every point whose distance to one
  of the endpoints exceeds the distance between the endpoints, whether or not it lies in
  the tolerance band; on a segment whose slope is \<open>"INF"\<close> and whose endpoints differ
  in their screen y-coordinate, it rejects every point whose y lies strictly outside
  the range of the endpoints' y.
\<close>

theorem hasPoint_segment:
  assumes "\<not> straightFirst L" and "\<not> straightLast L"
  shows "(getSlope B L \<noteq> SlopeINF \<and>
          (js_gt (distanceScr (coordsByScreen B x y) (point1 L)) (distanceScr (point1 L) (point2 L)) \<or>
           js_gt (distanceScr (coordsByScreen B x y) (point2 L)) (distanceScr (point1 L) (point2 L)))
          \<longrightarrow> \<not> hasPoint B L x y) \<and>
         (getSlope B L = SlopeINF \<and>
          js_lt (js_nth (scrCoords (point1 L)) 2) (js_nth (scrCoords (point2 L)) 2) \<and>
          (js_lt y (js_nth (scrCoords (point1 L)) 2) \<or> js_gt y (js_nth (scrCoords (point2 L)) 2))
          \<longrightarrow> \<not> hasPoint B L x y) \<and>
         (getSlope B L = SlopeINF \<and>
          js_gt (js_nth (scrCoords (point1 L)) 2) (js_nth (scrCoords (point2 L)) 2) \<and>
          (js_gt y (js_nth (scrCoords (point1 L)) 2) \<or> js_lt y (js_nth (scrCoords (point2 L)) 2))
          \<longrightarrow> \<not> hasPoint B L x y)"
proof (cases "getSlope B L")
  case SlopeINF
  have asym: "\<And>a b. js_lt a b \<Longrightarrow> \<not> js_lt b a"
  proof -
    fix a b show "js_lt a b \<Longrightarrow> \<not> js_lt b a" by (cases a; cases b) simp_all
  qed
  show ?thesis
    using assms SlopeINF asym [of "js_nth (scrCoords (point1 L)) 2" "js_nth (scrCoords (point2 L)) 2"]
      asym [of "js_nth (scrCoords (point2 L)) 2" "js_nth (scrCoords (point1 L)) 2"]
    by (simp add: hasPoint_def Let_def js_gt_def)
next
  case (SlopeNum m)
  show ?thesis
    using assms SlopeNum by (simp add: hasPoint_def Let_def)
qed

theorem hasPoint_segment_witness:
  "\<not> straightFirst diagonalSegment \<and> \<not> straightLast diagonalSegment \<and>
   getSlope exampleBoard diagonalSegment \<noteq> SlopeINF \<and>
   js_gt (distanceScr (coordsByScreen exampleBoard (Fin 2) (Fin (- 2))) (point1 diagonalSegment))
         (distanceScr (point1 diagonalSegment) (point2 diagonalSegment)) \<and>
   \<not> hasPoint exampleBoard diagonalSegment (Fin 2) (Fin (- 2)) \<and>
   getSlope exampleBoard verticalSegment = SlopeINF \<and>
   js_lt (js_nth (scrCoords (point1 verticalSegment)) 2) (js_nth (scrCoords (point2 verticalSegment)) 2) \<and>
   js_gt (Fin 6) (js_nth (scrCoords (point2 verticalSegment)) 2) \<and>
   \<not> hasPoint exampleBoard verticalSegment (Fin 0) (Fin 6) \<and>
   hasPoint exampleBoard diagonalSegment (Fin (1 / 2)) (Fin (- 1 / 2)) \<and>
   hasPoint exampleBoard verticalSegment (Fin 0) (Fin 3)"
proof -
  have f: "\<not> straightFirst diagonalSegment" "\<not> straightLast diagonalSegment"
    by (simp_all add: diagonalSegment_def exampleLine_def)
  have g: "\<not> straightFirst verticalSegment" "\<not> straightLast verticalSegment"
    by (simp_all add: verticalSegment_def exampleLine_def)
  have d1: "getSlope exampleBoard diagonalSegment \<noteq> SlopeINF"
    by (simp add: getSlope_def usesUsr_def diagonalSegment_def ex_defs)
  have d2: "js_gt (distanceScr (coordsByScreen exampleBoard (Fin 2) (Fin (- 2))) (point1 diagonalSegment))
         (distanceScr (point1 diagonalSegment) (point2 diagonalSegment))"
    by (simp add: distanceScr_def coordsByScreen_def diagonalSegment_def ex_defs)
  from hasPoint_segment [OF f, of exampleBoard "Fin 2" "Fin (- 2)"] d1 d2
  have 1: "\<not> hasPoint exampleBoard diagonalSegment (Fin 2) (Fin (- 2))" by blast
  have v1: "getSlope exampleBoard verticalSegment = SlopeINF"
    by (simp add: getSlope_def usesUsr_def verticalSegment_def ex_defs)
  have v2: "js_lt (js_nth (scrCoords (point1 verticalSegment)) 2) (js_nth (scrCoords (point2 verticalSegment)) 2)"
    and v3: "js_gt (Fin 6) (js_nth (scrCoords (point2 verticalSegment)) 2)"
    by (simp_all add: verticalSegment_def ex_defs)
  from hasPoint_segment [OF g, of exampleBoard "Fin 0" "Fin 6"] v1 v2 v3
  have 2: "\<not> hasPoint exampleBoard verticalSegment (Fin 0) (Fin 6)" by blast
  have 3: "hasPoint exampleBoard diagonalSegment (Fin (1 / 2)) (Fin (- 1 / 2))"
    by (simp add: hasPoint_def getSlope_def usesUsr_def getRise_def bandLoop.simps
        distanceScr_def coordsByScreen_def diagonalSegment_def ex_defs)
  have 4: "hasPoint exampleBoard verticalSegment (Fin 0) (Fin 3)"
    by (simp add: hasPoint_def getSlope_def usesUsr_def verticalSegment_def ex_defs)
  from f d1 d2 1 v1 v2 v3 2 3 4 show ?thesis by blast
qed

lemmas grid_ex_defs = exampleState_def exampleGrid_def exampleAttrs_def exampleBoard_def
  majorLocalsOf_def resolveMajorStep_def twoEntries_def existsOr_def resolveStep_def
  applyForceSquare_def sizeXOf_def sizeYOf_def majorRadius_def maxLines_def writeBack_def
  js_nth_def js_sub_def js_le_def js_ge_def js_gt_def

section \<open>The coordinate arrays of a grid have the same length\<close>


lemmas majorRow_induct =
  majorRow.raw_induct [where xa = "(((E, y), x), g)", unfolded prod.case]
  for E y x g











lemma createDataArrayForFace_returns:
  assumes "\<not> isRegpol fc"
  shows "\<exists>r. createDataArrayForFace fc B g x y radiusX radiusY bbox = Some r"
  using assms by (auto simp add: createDataArrayForFace_def Let_def isRegpol_def)


















section \<open>A grid is never hit\<close>

text \<open>
  Claim C10: \<open>hasPoint\<close> of the major grid and of the minor grid returns false for
  every screen point, whatever the grids hold.
\<close>

theorem grid_hasPoint_false:
  "\<not> majorGrid_hasPoint S x y \<and> \<not> minorGrid_hasPoint S x y"
  by (simp add: majorGrid_hasPoint_def minorGrid_hasPoint_def)

section \<open>The cap on the number of grid elements\<close>

lemma createDataArrayForFace_data:
  assumes "createDataArrayForFace fc B g x y radiusX radiusY bbox = Some r"
  shows "dataX (fst r) = dataX g \<and> dataY (fst r) = dataY g"
  using assms
  by (auto simp add: createDataArrayForFace_def Let_def setLinecap_def split: if_splits bind_splits)

lemma concatData_grows:
  assumes "createDataArrayForFace fc B g x y radiusX radiusY bbox = Some r"
  shows "length (dataX g) \<le> length (dataX (concatData r))"
  using createDataArrayForFace_data [OF assms] by (simp add: concatData_def)

lemma majorRow_grows:
  assumes "majorRow E y x g = Some g'"
  shows "length (dataX g) \<le> length (dataX g')"
proof (induct rule: majorRow_induct [OF _ assms])
  case (1 majorRow E y x g g')
  show ?case
  proof (cases "ml_finite E \<and> js_le x (js_nth (ml_bbox E) 2)")
    case False
    with 1(2) show ?thesis by auto
  next
    case True
    show ?thesis
    proof (cases "majorSkip E x y")
      case sk: True
      with True 1(2) have "majorRow E y (js_add x (ml_step0 E)) g = Some g'" by simp
      from 1(1) [OF this] show ?thesis .
    next
      case sk: False
      with True 1(2) obtain r where
        c: "createDataArrayForFace (ml_face E) (ml_board E) g x y (ml_radiusX E)
          (ml_radiusY E) (ml_bbox E) = Some r"
        and m: "majorRow E y (js_add x (ml_step0 E)) (concatData r) = Some g'"
        by (auto split: bind_splits)
      from 1(1) [OF m] concatData_grows [OF c] show ?thesis by simp
    qed
  qed
qed

lemma majorCol_grows:
  assumes "majorCol E y g = Some g'"
  shows "length (dataX g) \<le> length (dataX g')"
proof (induct rule: majorCol.raw_induct [OF _ assms])
  case (1 majorCol E y g g')
  show ?case
  proof (cases "ml_finite E \<and> js_ge y (js_nth (ml_bbox E) 3)")
    case False
    with 1(2) show ?thesis by auto
  next
    case True
    with 1(2) obtain g1 where r: "majorRow E y (ml_startX E) g = Some g1"
      and c: "majorCol E (js_sub y (ml_step1 E)) g1 = Some g'"
      by (auto split: bind_splits)
    from majorRow_grows [OF r] 1(1) [OF c] show ?thesis by simp
  qed
qed

text \<open>With a positive step and a face other than the regular polygon both loops end.\<close>

lemma majorRow_ends:
  assumes s: "ml_step0 E = Fin s" "0 < s" and f: "\<not> isRegpol (ml_face E)"
  shows "js_nth (ml_bbox E) 2 = Fin b \<Longrightarrow> b - x < real k * s \<Longrightarrow>
         \<exists>g'. majorRow E y (Fin x) g = Some g'"
proof (induction k arbitrary: x g)
  case 0
  hence "\<not> js_le (Fin x) (js_nth (ml_bbox E) 2)" by (simp add: js_le_def)
  thus ?case by (subst majorRow.simps) simp
next
  case (Suc k)
  have lt: "b - (x + s) < real k * s"
    using Suc.prems(2) by (simp add: algebra_simps)
  note IH = Suc.IH [OF Suc.prems(1) lt]
  show ?case
  proof (cases "ml_finite E \<and> js_le (Fin x) (js_nth (ml_bbox E) 2)")
    case False
    thus ?thesis by (subst majorRow.simps) auto
  next
    case True
    show ?thesis
    proof (cases "majorSkip E (Fin x) y")
      case sk: True
      from IH [of g] True sk s show ?thesis
        by (subst majorRow.simps) simp
    next
      case sk: False
      from createDataArrayForFace_returns [of "ml_face E" "ml_board E" g "Fin x" y
          "ml_radiusX E" "ml_radiusY E" "ml_bbox E"] f
      obtain r where r: "createDataArrayForFace (ml_face E) (ml_board E) g (Fin x) y
          (ml_radiusX E) (ml_radiusY E) (ml_bbox E) = Some r" by blast
      from IH [of "concatData r"] True sk s r show ?thesis
        by (subst majorRow.simps) simp
    qed
  qed
qed

lemma majorCol_ends:
  assumes s0: "ml_step0 E = Fin s0" "0 < s0" and s1: "ml_step1 E = Fin s1" "0 < s1"
    and f: "\<not> isRegpol (ml_face E)"
    and b2: "js_nth (ml_bbox E) 2 = Fin b2" and b3: "js_nth (ml_bbox E) 3 = Fin b3"
    and sx: "ml_startX E = Fin x0"
  shows "y - b3 < real k * s1 \<Longrightarrow> \<exists>g'. majorCol E (Fin y) g = Some g'"
proof (induction k arbitrary: y g)
  case 0
  hence "\<not> js_ge (Fin y) (js_nth (ml_bbox E) 3)" by (simp add: js_ge_def js_le_def b3)
  thus ?case by (subst majorCol.simps) simp
next
  case (Suc k)
  have lt: "(y - s1) - b3 < real k * s1"
    using Suc.prems by (simp add: algebra_simps)
  obtain n :: nat where "b2 - x0 < real n * s0"
    using reals_Archimedean3 [OF s0(2)] by blast
  from majorRow_ends [OF s0 f b2 this] obtain g1 where
    g1: "majorRow E (Fin y) (Fin x0) g = Some g1" by blast
  from Suc.IH [OF lt, of g1] obtain g' where "majorCol E (Fin (y - s1)) g1 = Some g'" by blast
  thus ?case
    using g1 s1 sx by (subst majorCol.simps) (simp add: js_sub_def)
qed

lemma majorRow_emits:
  assumes s: "ml_step0 E = Fin s" "0 < s" and fin: "ml_finite E"
    and b: "js_nth (ml_bbox E) 2 = Fin b"
    and noskip: "\<And>x y. \<not> majorSkip E x y"
    and fc: "toLowerCase (ml_face E) = ''point''"
  shows "x + real n * s \<le> b + s \<Longrightarrow> majorRow E y (Fin x) g = Some g' \<Longrightarrow>
         length (dataX g) + 3 * n \<le> length (dataX g')"
proof (induction n arbitrary: x g)
  case 0
  from majorRow_grows [OF 0(2)] show ?case by simp
next
  case (Suc n)
  have "0 \<le> real n * s" using s(2) by simp
  with Suc.prems(1) have xb: "x \<le> b" by (simp add: algebra_simps)
  hence le: "js_le (Fin x) (js_nth (ml_bbox E) 2)" by (auto simp add: b js_le_def)
  let ?g1 = "concatData (setLinecap ''round'' g, [Fin x, Fin x, NaN], [y, y, NaN])"
  have c: "createDataArrayForFace (ml_face E) (ml_board E) g (Fin x) y (ml_radiusX E)
      (ml_radiusY E) (ml_bbox E) = Some (setLinecap ''round'' g, [Fin x, Fin x, NaN], [y, y, NaN])"
    by (simp add: createDataArrayForFace_def fc)
  have "majorRow E y (Fin x) g = majorRow E y (Fin (x + s)) ?g1"
    using fin le noskip c s by (subst majorRow.simps) simp
  with Suc.prems(2) have m: "majorRow E y (Fin (x + s)) ?g1 = Some g'" by simp
  have "(x + s) + real n * s \<le> b + s"
    using Suc.prems(1) by (simp add: algebra_simps)
  from Suc.IH [OF this m] show ?case
    by (simp add: concatData_def setLinecap_def)
qed

text \<open>
  Claim C7 at the bounding box \<open>[-6000, 5, 5, -5]\<close> with step \<open>1\<close>: the box implies
  6005 columns, more than \<open>maxLines\<close>, and the call returns with more than 5000
  markers (three entries each) in \<open>dataX\<close>. The guard compares only
  \<open>|bbox[2]|\<close> and \<open>|bbox[3]|\<close> with \<open>step * maxLines\<close>.
\<close>

theorem majorGrid_cap_exceeded:
  "js_lt maxLines
     (js_div (js_sub (js_nth (boundingBox (gboard wideState)) 2)
                     (js_nth (boundingBox (gboard wideState)) 0))
             (ml_step0 (majorLocalsOf roundToStepDown wideState))) \<and>
   (\<exists>S'. majorGrid_updateDataArray roundToStepDown wideState = Some S' \<and>
      3 * 5000 < length (dataX (majorGrid S')))"
proof -
  define E where "E = majorLocalsOf roundToStepDown wideState"
  have E: "ml_step0 E = Fin 1" "ml_step1 E = Fin 1" "ml_finite E"
    "ml_bbox E = [Fin (- 6000), Fin 5, Fin 5, Fin (- 5)]" "ml_startX E = Fin (- 6000)"
    "ml_face E = ''point''"
    "ml_drawZero0 E" "ml_drawZeroX E" "ml_drawZeroY E" "ml_includeBoundaries E"
    by (simp_all add: E_def wideState_def grid_ex_defs Let_def)
  have b: "js_nth (ml_bbox E) 2 = Fin 5" "js_nth (ml_bbox E) 3 = Fin (- 5)"
    "js_nth (ml_bbox E) 1 = Fin 5"
    by (simp_all add: E js_nth_def)
  have noskip: "\<And>x y. \<not> majorSkip E x y"
    by (simp add: majorSkip_def E Let_def)
  have fc: "toLowerCase (ml_face E) = ''point''" "\<not> isRegpol (ml_face E)"
    by (simp_all add: E isRegpol_def toLowerCase_def lowerChar_def)
  have one: "(0::real) < 1" by simp
  define g0 where "g0 = (majorGrid wideState)
      \<lparr>visProp := (visProp (majorGrid wideState))
         \<lparr>majorstep := writeBack (majorstep (visProp (majorGrid wideState))) (ml_step0 E) (ml_step1 E)\<rparr>,
       dataX := [], dataY := []\<rparr>"
  obtain k :: nat where "5 - (- 5) < real k * (1::real)"
    using reals_Archimedean3 [OF one] by blast
  from majorCol_ends [OF E(1) one E(2) one fc(2) b(1) b(2) E(5) this, of g0]
  obtain g' where g': "majorCol E (Fin 5) g0 = Some g'" by blast
  have "js_ge (Fin 5) (js_nth (ml_bbox E) 3)"
    by (simp add: b js_ge_def js_le_def)
  with g' E(3) obtain g1 where r: "majorRow E (Fin 5) (Fin (- 6000)) g0 = Some g1"
    and c: "majorCol E (js_sub (Fin 5) (ml_step1 E)) g1 = Some g'"
    by (subst (asm) majorCol.simps) (auto simp add: E(5) split: bind_splits)
  have "(- 6000) + real (6006::nat) * 1 \<le> (5::real) + 1" by simp
  from majorRow_emits [OF E(1) one E(3) b(1) noskip fc(1) this r]
  have "3 * 6006 \<le> length (dataX g1)" by (simp add: g0_def)
  with majorCol_grows [OF c] have big: "3 * 5000 < length (dataX g')" by simp
  have "majorGrid_updateDataArray roundToStepDown wideState =
      Some (wideState\<lparr>majorStep := Some [ml_step0 E, ml_step1 E],
                          majorRadiusX := ml_radiusX E,
                          majorRadiusY := ml_radiusY E,
                          majorGrid := g'\<rparr>)"
    using g' unfolding majorGrid_updateDataArray_def Let_def E_def [symmetric] g0_def [symmetric]
    by (simp add: b E js_nth_def)
  with big have 2: "\<exists>S'. majorGrid_updateDataArray roundToStepDown wideState = Some S' \<and>
      3 * 5000 < length (dataX (majorGrid S'))" by simp
  have 1: "js_lt maxLines
     (js_div (js_sub (js_nth (boundingBox (gboard wideState)) 2)
                     (js_nth (boundingBox (gboard wideState)) 0))
             (ml_step0 (majorLocalsOf roundToStepDown wideState)))"
    using E(1) unfolding E_def
    by (simp add: wideState_def exampleState_def exampleBoard_def js_nth_def js_sub_def maxLines_def)
  from 1 2 show ?thesis by blast
qed

text \<open>What the guard does: when \<open>finite\<close> is false, no marker is emitted and the
  call returns.\<close>

lemma majorGrid_guard:
  assumes "\<not> ml_finite (majorLocalsOf roundToStep S)"
  shows "\<exists>S'. majorGrid_updateDataArray roundToStep S = Some S' \<and>
           dataX (majorGrid S') = [] \<and> dataY (majorGrid S') = []"
proof -
  have "\<And>y g. majorCol (majorLocalsOf roundToStep S) y g = Some g"
    using assms by (subst majorCol.simps) simp
  thus ?thesis
    by (simp add: majorGrid_updateDataArray_def Let_def)
qed

section \<open>Calling updateDataArray twice\<close>





































end
